theory Spec2Isabelle
  imports Complex_Main "HOL-Library.Sublist" "HOL-Library.AList"
begin

section \<open>Strings\<close>

text \<open>
  A JavaScript string is modelled as a \<^typ>\<open>string\<close>: the bytes of its UTF-8 form.
  On well-formed strings, joining strings and looking for one string inside another
  are the same on the bytes as on the characters. \<open>String.prototype.toLowerCase\<close>
  is the engine's own and is not defined here: what calls it takes it as an argument
  (\<open>toLowerCase\<close>), as is done for \<open>new URL\<close> and for \<open>toLocaleString\<close>.
\<close>

text \<open>
  The white space that \<open>trim\<close> strips, \<open>WhiteSpace\<close> and \<open>LineTerminator\<close> of
  ECMAScript, each character as its bytes: U+0009 to U+000D, U+0020, U+00A0, U+1680,
  U+2000 to U+200A, U+2028, U+2029, U+202F, U+205F, U+3000 and U+FEFF.
\<close>

definition whiteSpaces :: "string list" where
  "whiteSpaces =
     [[CHR 0x09], [CHR 0x0A], [CHR 0x0B], [CHR 0x0C], [CHR 0x0D], [CHR 0x20],
      [CHR 0xC2, CHR 0xA0],
      [CHR 0xE1, CHR 0x9A, CHR 0x80],
      [CHR 0xE2, CHR 0x80, CHR 0x80], [CHR 0xE2, CHR 0x80, CHR 0x81],
      [CHR 0xE2, CHR 0x80, CHR 0x82], [CHR 0xE2, CHR 0x80, CHR 0x83],
      [CHR 0xE2, CHR 0x80, CHR 0x84], [CHR 0xE2, CHR 0x80, CHR 0x85],
      [CHR 0xE2, CHR 0x80, CHR 0x86], [CHR 0xE2, CHR 0x80, CHR 0x87],
      [CHR 0xE2, CHR 0x80, CHR 0x88], [CHR 0xE2, CHR 0x80, CHR 0x89],
      [CHR 0xE2, CHR 0x80, CHR 0x8A],
      [CHR 0xE2, CHR 0x80, CHR 0xA8], [CHR 0xE2, CHR 0x80, CHR 0xA9],
      [CHR 0xE2, CHR 0x80, CHR 0xAF],
      [CHR 0xE2, CHR 0x81, CHR 0x9F],
      [CHR 0xE3, CHR 0x80, CHR 0x80],
      [CHR 0xEF, CHR 0xBB, CHR 0xBF]]"

text \<open>
  \<open>strip ws s\<close> takes strings of \<open>ws\<close> off the front of \<open>s\<close> for as long as one is
  there; \<open>trim\<close> strips the white space off the front and, on the reversed bytes, off
  the end.
\<close>

function strip :: "string list \<Rightarrow> string \<Rightarrow> string" where
  "strip ws s =
     (case find (\<lambda>w. w \<noteq> [] \<and> prefix w s) ws of
        Some w \<Rightarrow> strip ws (drop (length w) s)
      | None \<Rightarrow> s)"
  by pat_completeness auto
termination
  by (relation "measure (\<lambda>(ws, s). length s)") (auto simp add: find_Some_iff prefix_def)

declare strip.simps [simp del]

definition trim :: "string \<Rightarrow> string" where
  "trim s = rev (strip (map rev whiteSpaces) (rev (strip whiteSpaces s)))"

text \<open>\<open>hay.includes(needle)\<close>: the needle occurs at some position of the hay
  (\<open>includes\<close> is a keyword of Isabelle, hence the suffix).\<close>

fun includesStr :: "string \<Rightarrow> string \<Rightarrow> bool" where
  "includesStr [] needle = (needle = [])"
| "includesStr (c # cs) needle = (prefix needle (c # cs) \<or> includesStr cs needle)"

text \<open>\<open>parts.join(sep)\<close>.\<close>

fun join :: "string \<Rightarrow> string list \<Rightarrow> string" where
  "join sep [] = []"
| "join sep [x] = x"
| "join sep (x # y # ys) = x @ sep @ join sep (y # ys)"

section \<open>Dashboard: the record store and its derived view\<close>

text \<open>
  \<open>interface ScrapedItem\<close>. The optional \<open>contentType\<close> is an option; the optional
  \<open>_id\<close> is never read by the component and is left out.
\<close>

record ScrapedItem =
  title :: string
  price :: string
  availability :: string
  category :: string
  source :: string
  timestamp :: string
  contentType :: "string option"

text \<open>
  The values that reading \<open>summary[key]\<close> can give: \<open>undefined\<close>, a number, a
  string, or an object or function (one inherited from \<open>Object.prototype\<close>), kept as
  the text that converting it to a string gives.
\<close>

datatype jsval = JUndefined | JNum nat | JStr string | JObj string

text \<open>
  The own enumerable properties of the \<open>summary\<close> object, oldest first (JavaScript
  lists the keys that are array indices before the others; nothing here depends on the
  order).
\<close>

type_synonym SiteSummary = "(string \<times> jsval) list"

text \<open>
  The component state of \<open>Dashboard\<close>, one field per \<open>useState\<close>. \<open>selectedItems\<close> is
  a JavaScript \<open>Set<number>\<close>: its elements in insertion order, without duplicates.
\<close>

record Dashboard =
  data :: "ScrapedItem list"
  filteredData :: "ScrapedItem list"
  loading :: bool
  error :: string
  siteSummary :: SiteSummary
  selectedItems :: "nat list"
  isDeleting :: bool
  contentTypeFilter :: string
  searchQuery :: string

text \<open>
  The body of \<open>filterData\<close> up to the two state updates: the new derived view.
  \<open>toLowerCase\<close> stands for \<open>String.prototype.toLowerCase\<close>.
\<close>

definition applyFilter ::
  "(string \<Rightarrow> string) \<Rightarrow> ScrapedItem list \<Rightarrow> string \<Rightarrow> string \<Rightarrow> ScrapedItem list" where
  "applyFilter toLowerCase items ctf query =
     (let filtered = items;
          filtered = (if ctf \<noteq> ''all''
                      then filter (\<lambda>item. contentType item = Some ctf) filtered
                      else filtered);
          filtered = (if trim query \<noteq> []
                      then filter (\<lambda>item. includesStr (toLowerCase (title item))
                                                     (trim (toLowerCase query))) filtered
                      else filtered)
      in filtered)"

definition filterData :: "(string \<Rightarrow> string) \<Rightarrow> Dashboard \<Rightarrow> Dashboard" where
  "filterData toLowerCase st =
     st\<lparr>filteredData := applyFilter toLowerCase (data st) (contentTypeFilter st) (searchQuery st),
        selectedItems := []\<rparr>"

subsection \<open>The site summary\<close>

text \<open>
  \<open>const summary: SiteSummary = {}\<close> is an ordinary object, so reading a key that is
  not an own property falls through to \<open>Object.prototype\<close>. Its members are listed
  here with the text each converts to (as V8 prints a native function; the text plays
  no role below, only that \<open>+ 1\<close> on it gives a string).
\<close>

definition objectPrototypeKeys :: "string list" where
  "objectPrototypeKeys =
     [''constructor'', ''__defineGetter__'', ''__defineSetter__'', ''hasOwnProperty'',
      ''__lookupGetter__'', ''__lookupSetter__'', ''isPrototypeOf'',
      ''propertyIsEnumerable'', ''toString'', ''valueOf'', ''__proto__'',
      ''toLocaleString'']"

definition inheritedText :: "string \<Rightarrow> string" where
  "inheritedText key =
     (if key = ''__proto__'' then ''[object Object]''
      else if key = ''constructor'' then ''function Object() { [native code] }''
      else ''function '' @ key @ ''() { [native code] }'')"

text \<open>\<open>summary[key]\<close>, read.\<close>

definition getProp :: "SiteSummary \<Rightarrow> string \<Rightarrow> jsval" where
  "getProp summary key =
     (case map_of summary key of
        Some v \<Rightarrow> v
      | None \<Rightarrow> if key \<in> set objectPrototypeKeys then JObj (inheritedText key)
                else JUndefined)"

text \<open>\<open>(v || 0) + 1\<close>: a falsy \<open>v\<close> counts as 0; a string or an object concatenates.\<close>

fun orZeroPlusOne :: "jsval \<Rightarrow> jsval" where
  "orZeroPlusOne JUndefined = JNum 1"
| "orZeroPlusOne (JNum n) = JNum (n + 1)"
| "orZeroPlusOne (JStr s) = (if s = [] then JNum 1 else JStr (s @ ''1''))"
| "orZeroPlusOne (JObj text) = JStr (text @ ''1'')"

text \<open>
  \<open>summary[key] = v\<close>, written, for a number or a string \<open>v\<close>: the inherited setter of
  \<open>__proto__\<close> ignores such a value and creates no property; every other key becomes
  (or stays) an own property.
\<close>

definition setProp :: "SiteSummary \<Rightarrow> string \<Rightarrow> jsval \<Rightarrow> SiteSummary" where
  "setProp summary key v =
     (if key = ''__proto__'' then summary else AList.update key v summary)"

definition increment :: "SiteSummary \<Rightarrow> string \<Rightarrow> SiteSummary" where
  "increment summary key = setProp summary key (orZeroPlusOne (getProp summary key))"

text \<open>
  The key one item is counted under. \<open>hostnameOf\<close> stands for
  \<open>new URL(s).hostname\<close>, \<open>None\<close> when the constructor throws.
\<close>

definition summaryKey :: "(string \<Rightarrow> string option) \<Rightarrow> ScrapedItem \<Rightarrow> string" where
  "summaryKey hostnameOf item =
     (case hostnameOf (source item) of
        Some domain \<Rightarrow> domain
      | None \<Rightarrow> if source item \<noteq> [] then source item else ''Unknown Source'')"

text \<open>The \<open>forEach\<close> of \<open>calculateSiteSummary\<close>, from a given \<open>summary\<close> on.\<close>

fun summarise :: "(string \<Rightarrow> string option) \<Rightarrow> SiteSummary \<Rightarrow> ScrapedItem list \<Rightarrow> SiteSummary" where
  "summarise hostnameOf summary [] = summary"
| "summarise hostnameOf summary (item # items) =
     summarise hostnameOf (increment summary (summaryKey hostnameOf item)) items"

definition calculateSiteSummary ::
  "(string \<Rightarrow> string option) \<Rightarrow> ScrapedItem list \<Rightarrow> Dashboard \<Rightarrow> Dashboard" where
  "calculateSiteSummary hostnameOf items st =
     st\<lparr>siteSummary := summarise hostnameOf [] items\<rparr>"

text \<open>The counts of a summary: the numbers among its values.\<close>

fun countOf :: "jsval \<Rightarrow> nat" where
  "countOf (JNum n) = n"
| "countOf v = 0"

definition totalCount :: "SiteSummary \<Rightarrow> nat" where
  "totalCount summary = sum_list (map (\<lambda>(key, v). countOf v) summary)"

subsection \<open>Loading\<close>

text \<open>
  What a request comes back with: a response whose body has a \<open>success\<close> flag (and, for
  \<open>GET /data\<close>, the records), or a thrown value, of which the handlers read the
  \<open>message\<close> (when it is an \<open>Error\<close>) and \<open>response.data.error\<close> (when there is one).
\<close>

record thrown =
  errorMessage :: "string option"
  apiError :: "string option"

datatype 'a outcome = Resolved 'a | Rejected thrown

text \<open>\<open>a || b\<close> on an optional string: the empty string is falsy too.\<close>

definition orElse :: "string option \<Rightarrow> string \<Rightarrow> string" where
  "orElse a b = (case a of Some s \<Rightarrow> if s \<noteq> [] then s else b | None \<Rightarrow> b)"

definition messageOf :: "thrown \<Rightarrow> string" where
  "messageOf e = (case errorMessage e of Some m \<Rightarrow> m | None \<Rightarrow> ''An unknown error occurred'')"

definition fetchData ::
  "(string \<Rightarrow> string option) \<Rightarrow> (bool \<times> ScrapedItem list) outcome \<Rightarrow> Dashboard \<Rightarrow> Dashboard" where
  "fetchData hostnameOf response st =
     (let st = st\<lparr>loading := True\<rparr>;
          st = (case response of
                  Resolved (success, items) \<Rightarrow>
                    if success then calculateSiteSummary hostnameOf items (st\<lparr>data := items\<rparr>)
                    else st\<lparr>error := ''Failed to fetch data''\<rparr>
                | Rejected e \<Rightarrow>
                    st\<lparr>error := ''Error fetching data: '' @ orElse (apiError e) (messageOf e)\<rparr>)
      in st\<lparr>loading := False\<rparr>)"

subsection \<open>The events that recompute the derived view\<close>

text \<open>
  \<open>useEffect(() => { filterData(); }, [data, contentTypeFilter, searchQuery])\<close> runs
  \<open>filterData\<close> after every render in which one of the three changed. \<open>setData\<close> is
  always given a fresh array, so a successful reload always runs it; a filter button or
  the search box runs it when the new string differs from the old one.
\<close>

definition refresh ::
  "(string \<Rightarrow> string option) \<Rightarrow> (string \<Rightarrow> string) \<Rightarrow> (bool \<times> ScrapedItem list) outcome
     \<Rightarrow> Dashboard \<Rightarrow> Dashboard" where
  "refresh hostnameOf toLowerCase response st =
     (case response of
        Resolved (True, items) \<Rightarrow> filterData toLowerCase (fetchData hostnameOf response st)
      | _ \<Rightarrow> fetchData hostnameOf response st)"

definition setContentTypeFilter :: "(string \<Rightarrow> string) \<Rightarrow> string \<Rightarrow> Dashboard \<Rightarrow> Dashboard" where
  "setContentTypeFilter toLowerCase type st =
     (if type = contentTypeFilter st then st
      else filterData toLowerCase (st\<lparr>contentTypeFilter := type\<rparr>))"

definition setSearchQuery :: "(string \<Rightarrow> string) \<Rightarrow> string \<Rightarrow> Dashboard \<Rightarrow> Dashboard" where
  "setSearchQuery toLowerCase q st =
     (if q = searchQuery st then st else filterData toLowerCase (st\<lparr>searchQuery := q\<rparr>))"

subsection \<open>Selection\<close>

definition handleSelectItem :: "nat \<Rightarrow> Dashboard \<Rightarrow> Dashboard" where
  "handleSelectItem index st =
     st\<lparr>selectedItems :=
          (if index \<in> set (selectedItems st) then removeAll index (selectedItems st)
           else selectedItems st @ [index])\<rparr>"

definition handleSelectAll :: "Dashboard \<Rightarrow> Dashboard" where
  "handleSelectAll st =
     (if length (selectedItems st) = length (filteredData st) then st\<lparr>selectedItems := []\<rparr>
      else st\<lparr>selectedItems := [0 ..< length (filteredData st)]\<rparr>)"

subsection \<open>What the user sees\<close>

text \<open>
  The three \<open>return\<close>s of the component: the spinner while loading, else the error box
  when \<open>error\<close> is not empty, else the dashboard itself.
\<close>

datatype screen = Spinner | ErrorBox string | Content

definition render :: "Dashboard \<Rightarrow> screen" where
  "render st = (if loading st then Spinner
                else if error st \<noteq> [] then ErrorBox (error st)
                else Content)"

subsection \<open>Deleting the selected rows\<close>

text \<open>\<open>`${item.title}-${item.source}-${item.timestamp}`\<close>\<close>

definition identityKey :: "ScrapedItem \<Rightarrow> string" where
  "identityKey item = title item @ ''-'' @ source item @ ''-'' @ timestamp item"

text \<open>\<open>filteredData[index]\<close>: \<open>undefined\<close> (\<open>None\<close>) beyond the end of the array.\<close>

definition itemAt :: "ScrapedItem list \<Rightarrow> nat \<Rightarrow> ScrapedItem option" where
  "itemAt xs index = (if index < length xs then Some (xs ! index) else None)"

text \<open>The one request the component sends here: \<open>POST /delete\<close> with \<open>{items}\<close>.\<close>

datatype request = PostDelete "ScrapedItem option list"

text \<open>
  The message of the \<open>TypeError\<close> that reading \<open>item.title\<close> of \<open>undefined\<close> throws
  (V8's wording).
\<close>

definition typeErrorMessage :: string where
  "typeErrorMessage =
     ''Cannot read properties of undefined (reading '' @ [CHR 0x27] @ ''title'' @ [CHR 0x27] @ '')''"

text \<open>
  \<open>handleDeleteSelected\<close>, with the answer of the server as an argument: the new state
  and the requests sent. On a successful answer, an \<open>undefined\<close> among the items to
  delete (\<open>those\<close> gives \<open>None\<close>) throws inside the \<open>try\<close> and ends in the \<open>catch\<close>.
\<close>

definition handleDeleteSelected ::
  "(string \<Rightarrow> string option) \<Rightarrow> bool outcome \<Rightarrow> Dashboard \<Rightarrow> Dashboard \<times> request list" where
  "handleDeleteSelected hostnameOf response st =
     (if length (selectedItems st) = 0 then (st, [])
      else
        let indicesToDelete = selectedItems st;
            itemsToDelete = map (itemAt (filteredData st)) indicesToDelete;
            st = st\<lparr>isDeleting := True\<rparr>;
            st =
              (case response of
                 Resolved success \<Rightarrow>
                   if success then
                     (case those itemsToDelete of
                        None \<Rightarrow> st\<lparr>error := ''Error deleting items: '' @ typeErrorMessage\<rparr>
                      | Some items \<Rightarrow>
                          let deletedItemsSet = map identityKey items;
                              newData = filter (\<lambda>item. identityKey item \<notin> set deletedItemsSet)
                                          (data st)
                          in (calculateSiteSummary hostnameOf newData (st\<lparr>data := newData\<rparr>))
                               \<lparr>selectedItems := []\<rparr>)
                   else st\<lparr>error := ''Failed to delete items''\<rparr>
               | Rejected e \<Rightarrow> st\<lparr>error := ''Error deleting items: '' @ messageOf e\<rparr>)
        in (st\<lparr>isDeleting := False\<rparr>, [PostDelete itemsToDelete]))"

text \<open>
  The click on \<open>Delete Selected\<close> as the user sees it: the handler, then the effect on
  \<open>[data, ...]\<close>, which runs \<open>filterData\<close> when the handler has called \<open>setData\<close>
  (a successful answer for items that were all there).
\<close>

definition deleteSelected ::
  "(string \<Rightarrow> string option) \<Rightarrow> (string \<Rightarrow> string) \<Rightarrow> bool outcome \<Rightarrow> Dashboard \<Rightarrow> Dashboard" where
  "deleteSelected hostnameOf toLowerCase response st =
     (let st' = fst (handleDeleteSelected hostnameOf response st)
      in if selectedItems st \<noteq> [] \<and> response = Resolved True
            \<and> those (map (itemAt (filteredData st)) (selectedItems st)) \<noteq> None
         then filterData toLowerCase st' else st')"

text \<open>
  What holds of the dashboard between two events: the view is the filter applied to
  the record list, and the selection is a set of positions of the view.
\<close>

definition viewInvariant :: "(string \<Rightarrow> string) \<Rightarrow> Dashboard \<Rightarrow> bool" where
  "viewInvariant toLowerCase st =
     (filteredData st = applyFilter toLowerCase (data st) (contentTypeFilter st) (searchQuery st)
      \<and> distinct (selectedItems st)
      \<and> list_all (\<lambda>i. i < length (filteredData st)) (selectedItems st))"

text \<open>
  The identity key in the words of the specification: the concatenation of title,
  source URL and timestamp.
\<close>

definition specIdentityKey :: "ScrapedItem \<Rightarrow> string" where
  "specIdentityKey item = title item @ source item @ timestamp item"

text \<open>
  The records that a successful deletion leaves, in the words of the specification:
  those whose identity key is not the identity key of a selected record.
\<close>

definition specSurvivors :: "ScrapedItem list \<Rightarrow> ScrapedItem list \<Rightarrow> ScrapedItem list" where
  "specSurvivors selected items =
     filter (\<lambda>item. specIdentityKey item \<notin> set (map specIdentityKey selected)) items"

subsection \<open>Export\<close>

definition dquote :: char where
  "dquote = CHR 0x22"

text \<open>\<open>s.replace(/"/g, '""')\<close>\<close>

definition doubleQuotes :: "string \<Rightarrow> string" where
  "doubleQuotes s = concat (map (\<lambda>c. if c = dquote then [dquote, dquote] else [c]) s)"

text \<open>\<open>`"${s}"`\<close>\<close>

definition quoted :: "string \<Rightarrow> string" where
  "quoted s = [dquote] @ s @ [dquote]"

definition headers :: "string list" where
  "headers = [''Title'', ''Price/Release Date'', ''Availability/Rating'', ''Category'',
              ''Source'', ''Timestamp'', ''Content Type'']"

text \<open>
  One row of the file. \<open>toLocaleString\<close> stands for
  \<open>new Date(item.timestamp).toLocaleString()\<close>, which depends on the viewer's locale.
\<close>

definition csvRow :: "(string \<Rightarrow> string) \<Rightarrow> ScrapedItem \<Rightarrow> string" where
  "csvRow toLocaleString item =
     join '','' [quoted (doubleQuotes (title item)),
                quoted (price item),
                quoted (availability item),
                quoted (category item),
                quoted (source item),
                quoted (toLocaleString (timestamp item)),
                quoted (orElse (contentType item) ''books'')]"

text \<open>The \<open>csvContent\<close> of \<open>exportToCSV\<close>: the text of the downloaded file.\<close>

definition exportToCSV :: "(string \<Rightarrow> string) \<Rightarrow> Dashboard \<Rightarrow> string" where
  "exportToCSV toLocaleString st =
     join [CHR 0x0A] (join '','' headers # map (csvRow toLocaleString) (filteredData st))"

text \<open>
  Standard CSV quoting of one field, in the words of the specification: wrapped in
  double quotes, internal double quotes doubled.
\<close>

definition csvQuoted :: "string \<Rightarrow> string" where
  "csvQuoted s = quoted (doubleQuotes s)"

section \<open>ScrapeForm: submission and the progress channel\<close>

text \<open>The object held in \<open>progress\<close>, with the fields of its initial value.\<close>

record Progress =
  total_items :: nat
  processed_items :: nat
  ai_total :: nat
  ai_processed :: nat
  scraping_percentage :: real
  ai_percentage :: real
  status :: string
  message :: string

datatype messageType = Success | Error

text \<open>
  The component state of \<open>ScrapeForm\<close>, one field per \<open>useState\<close> (\<open>category\<close>,
  \<open>contentType\<close>, \<open>loading\<close> and \<open>message\<close> carry a prefix, the plain names being
  fields above). An \<open>EventSource\<close> is a number: the channels are numbered as they are
  created. The last two fields are the browser's side: how many channels have been
  created, and which of them have had \<open>close()\<close> called.
\<close>

record ScrapeForm =
  url :: string
  formCategory :: string
  formContentType :: string
  formLoading :: bool
  formMessage :: string
  formMessageType :: messageType
  progress :: "Progress option"
  eventSource :: "nat option"
  created :: nat
  closedChannels :: "nat list"

definition isOpen :: "ScrapeForm \<Rightarrow> nat \<Rightarrow> bool" where
  "isOpen st es = (es < created st \<and> es \<notin> set (closedChannels st))"

text \<open>\<open>es.close()\<close>\<close>

definition closeChannel :: "nat \<Rightarrow> ScrapeForm \<Rightarrow> ScrapeForm" where
  "closeChannel es st = st\<lparr>closedChannels := List.insert es (closedChannels st)\<rparr>"

text \<open>
  \<open>setEventSource(v)\<close> and the render it causes. The effect
  \<open>useEffect(() => () => { if (eventSource) eventSource.close(); }, [eventSource])\<close>
  is cleaned up when the value changes: the channel of the previous render is closed.
\<close>

definition setEventSource :: "nat option \<Rightarrow> ScrapeForm \<Rightarrow> ScrapeForm" where
  "setEventSource v st =
     (let st' = st\<lparr>eventSource := v\<rparr>
      in if eventSource st = v then st'
         else (case eventSource st of Some previous \<Rightarrow> closeChannel previous st'
               | None \<Rightarrow> st'))"

text \<open>
  A natural number in decimal, as a template literal prints it (a count below
  \<open>2^53\<close>, which a JavaScript number holds exactly and prints in full).
\<close>

definition digit :: "nat \<Rightarrow> char" where
  "digit d = char_of (48 + d)"

function showNat :: "nat \<Rightarrow> string" where
  "showNat n = (if n < 10 then [digit n] else showNat (n div 10) @ [digit (n mod 10)])"
  by pat_completeness auto
termination
  by (relation "measure id") auto

declare showNat.simps [simp del]

text \<open>
  What \<open>JSON.parse(event.data)\<close> does with the payload of an event: it throws a
  \<open>SyntaxError\<close>, or gives \<open>null\<close>, or gives an object with the fields of \<open>Progress\<close>.
\<close>

datatype parsed = SyntaxError | JsonNull | JsonObject Progress

text \<open>
  \<open>es.onmessage\<close>, for the channel \<open>es\<close> and the \<open>contentType\<close> of the render that
  submitted. On \<open>null\<close>, \<open>setProgress\<close> runs before \<open>data.status\<close> throws; whatever is
  thrown inside the \<open>try\<close> is logged and nothing else.
\<close>

definition onmessage :: "string \<Rightarrow> nat \<Rightarrow> parsed \<Rightarrow> ScrapeForm \<Rightarrow> ScrapeForm" where
  "onmessage contentType' es event st =
     (case event of
        SyntaxError \<Rightarrow> st
      | JsonNull \<Rightarrow> st\<lparr>progress := None\<rparr>
      | JsonObject d \<Rightarrow>
          let st = st\<lparr>progress := Some d\<rparr>
          in if status d = ''completed'' then
               let itemType = (if contentType' = ''tvshows'' then ''TV shows'' else contentType');
                   st = st\<lparr>formMessage := ''Successfully scraped '' @ showNat (processed_items d)
                                            @ '' '' @ itemType @ ''!'',
                           formMessageType := Success,
                           url := [],
                           formCategory := [],
                           formLoading := False\<rparr>
               in setEventSource None (closeChannel es st)
             else if status d = ''error'' then
               let st = st\<lparr>formMessage := orElse (Some (message d)) ''An error occurred while scraping'',
                           formMessageType := Error,
                           formLoading := False\<rparr>
               in setEventSource None (closeChannel es st)
             else st)"

text \<open>\<open>es.onerror\<close>\<close>

definition onerror :: "nat \<Rightarrow> ScrapeForm \<Rightarrow> ScrapeForm" where
  "onerror es st =
     setEventSource None
       (closeChannel es (st\<lparr>formMessage := ''Connection error occurred'',
                             formMessageType := Error,
                             formLoading := False\<rparr>))"

text \<open>
  The browser hands an event to \<open>es.onmessage\<close> only while \<open>es\<close> has not been closed;
  \<open>deliver\<close> feeds a sequence of events to the channel, one after the other.
\<close>

definition dispatch :: "string \<Rightarrow> nat \<Rightarrow> parsed \<Rightarrow> ScrapeForm \<Rightarrow> ScrapeForm" where
  "dispatch contentType' es event st =
     (if isOpen st es then onmessage contentType' es event st else st)"

fun deliver :: "string \<Rightarrow> nat \<Rightarrow> parsed list \<Rightarrow> ScrapeForm \<Rightarrow> ScrapeForm" where
  "deliver contentType' es [] st = st"
| "deliver contentType' es (event # events) st =
     deliver contentType' es events (dispatch contentType' es event st)"

definition starting :: Progress where
  "starting = \<lparr>total_items = 0, processed_items = 0, ai_total = 0, ai_processed = 0,
               scraping_percentage = 0, ai_percentage = 0,
               status = ''starting'', message = ''Starting scraping process...''\<rparr>"

text \<open>
  \<open>handleSubmit\<close>, with the way \<open>POST /scrape\<close> settles as an argument, in the run in
  which no event of the channel arrives before it settles. The \<open>eventSource\<close> that the
  \<open>catch\<close> block reads is the constant of the render the handler was created in: the
  value the state had when the form was submitted (\<open>captured\<close>), whatever
  \<open>setEventSource(es)\<close> has stored since.
\<close>

definition handleSubmit :: "unit outcome \<Rightarrow> ScrapeForm \<Rightarrow> ScrapeForm" where
  "handleSubmit response st =
     (if trim (url st) = [] then
        st\<lparr>formMessage := ''Please enter a URL'', formMessageType := Error\<rparr>
      else
        let captured = eventSource st;
            st = st\<lparr>formLoading := True, formMessage := [], progress := Some starting\<rparr>;
            es = created st;
            st = st\<lparr>created := Suc es\<rparr>;
            st = setEventSource (Some es) st
        in case response of
             Resolved u \<Rightarrow> st
           | Rejected e \<Rightarrow>
               let errorMessage' = orElse (apiError e) ''An error occurred while scraping'';
                   st = st\<lparr>formMessage := errorMessage',
                           formMessageType := Error,
                           formLoading := False\<rparr>
               in (case captured of
                     Some old \<Rightarrow> setEventSource None (closeChannel old st)
                   | None \<Rightarrow> st))"

section \<open>The derived view in the words of the specification\<close>


definition letterPairs :: "(char \<times> char) list" where
  "letterPairs = zip ''ABCDEFGHIJKLMNOPQRSTUVWXYZ'' ''abcdefghijklmnopqrstuvwxyz''"

definition sameLetter :: "char \<Rightarrow> char \<Rightarrow> bool" where
  "sameLetter c d = (c = d \<or> (c, d) \<in> set letterPairs \<or> (d, c) \<in> set letterPairs)"

fun containsIgnoringCase :: "string \<Rightarrow> string \<Rightarrow> bool" where
  "containsIgnoringCase [] text = (text = [])"
| "containsIgnoringCase (c # cs) text =
     (list_all2 sameLetter (take (length text) (c # cs)) text \<or> containsIgnoringCase cs text)"





text \<open>
  ASCII text: every byte is below 128. On it \<open>toLowerCase\<close> adds 32 to the capital
  letters \<open>A\<close>..\<open>Z\<close> (65..90) and leaves the rest.
\<close>

definition isAscii :: "string \<Rightarrow> bool" where
  "isAscii s = list_all (\<lambda>c. (of_char c :: nat) < 128) s"

definition asciiLower :: "char \<Rightarrow> char" where
  "asciiLower c =
     (if 65 \<le> (of_char c :: nat) \<and> (of_char c :: nat) \<le> 90
      then char_of ((of_char c :: nat) + 32) else c)"

definition asciiLowerCase :: "string \<Rightarrow> string" where
  "asciiLowerCase s = map asciiLower s"

text \<open>The white space of ASCII: tab, line feed, vertical tab, form feed, carriage return, space.\<close>

definition asciiWhiteSpace :: "char \<Rightarrow> bool" where
  "asciiWhiteSpace c = ((of_char c :: nat) \<in> {9, 10, 11, 12, 13, 32})"

section \<open>The CSV file in the words of the specification\<close>

text \<open>
  The header row, then one row per record of the view, every field wrapped in double
  quotes with its own double quotes doubled.
\<close>

definition specCsvRow :: "(string \<Rightarrow> string) \<Rightarrow> ScrapedItem \<Rightarrow> string" where
  "specCsvRow toLocaleString item =
     join '','' (map csvQuoted
       [title item, price item, availability item, category item, source item,
        toLocaleString (timestamp item), orElse (contentType item) ''books''])"

definition specExportCsv :: "(string \<Rightarrow> string) \<Rightarrow> ScrapedItem list \<Rightarrow> string" where
  "specExportCsv toLocaleString view =
     join [CHR 0x0A] (join '','' headers # map (specCsvRow toLocaleString) view)"

section \<open>Summaries that count\<close>

text \<open>
  A summary is sound when each of its values is a number and none of its keys is a
  member of \<open>Object.prototype\<close>.
\<close>

fun isCount :: "jsval \<Rightarrow> bool" where
  "isCount (JNum n) = True"
| "isCount v = False"

definition soundSummary :: "SiteSummary \<Rightarrow> bool" where
  "soundSummary summary =
     list_all (\<lambda>(key, v). key \<notin> set objectPrototypeKeys \<and> isCount v) summary"

section \<open>Example values\<close>

definition itemA :: ScrapedItem where
  "itemA = \<lparr>title = ''Dune'', price = ''12.99'', availability = ''In stock'',
            category = ''Fiction'', source = ''http://books.example/dune'',
            timestamp = ''2024-05-01T10:00:00Z'', contentType = Some ''books''\<rparr>"

definition itemB :: ScrapedItem where
  "itemB = \<lparr>title = ''Alien'', price = ''1979'', availability = ''8.5'',
            category = ''Horror'', source = ''http://films.example/alien'',
            timestamp = ''2024-05-02T11:00:00Z'', contentType = Some ''movies''\<rparr>"

definition itemC :: ScrapedItem where
  "itemC = \<lparr>title = ''Emma'', price = ''7.50'', availability = ''In stock'',
            category = ''Romance'', source = ''http://books.example/emma'',
            timestamp = ''2024-05-03T12:00:00Z'', contentType = None\<rparr>"

text \<open>What \<open>new URL(s).hostname\<close> gives on the sources used in the examples.\<close>

definition hostnames :: "string \<Rightarrow> string option" where
  "hostnames = map_of [(''http://books.example/dune'', ''books.example''),
                       (''http://films.example/alien'', ''films.example''),
                       (''http://books.example/emma'', ''books.example''),
                       (''http://constructor/'', ''constructor'')]"

text \<open>A dashboard showing the three items unfiltered, the first and the third selected.\<close>

definition dashboardABC :: Dashboard where
  "dashboardABC =
     \<lparr>data = [itemA, itemB, itemC], filteredData = [itemA, itemB, itemC],
      loading = False, error = [],
      siteSummary = [(''books.example'', JNum 2), (''films.example'', JNum 1)],
      selectedItems = [0, 2], isDeleting = False,
      contentTypeFilter = ''all'', searchQuery = []\<rparr>"







text \<open>
  A form filled in and not yet submitted, and two objects the progress channel sends.
\<close>

definition formReady :: ScrapeForm where
  "formReady =
     \<lparr>url = ''http://books.example/'', formCategory = ''Fiction'',
      formContentType = ''books'', formLoading = False, formMessage = [],
      formMessageType = Success,
      progress = Some (starting\<lparr>status := ''idle'', message := []\<rparr>),
      eventSource = None, created = 0, closedChannels = []\<rparr>"

definition running :: Progress where
  "running = \<lparr>total_items = 10, processed_items = 5, ai_total = 0, ai_processed = 0,
              scraping_percentage = 50, ai_percentage = 0,
              status = ''running'', message = ''Scraping''\<rparr>"

definition completed :: Progress where
  "completed = \<lparr>total_items = 10, processed_items = 10, ai_total = 0, ai_processed = 0,
                scraping_percentage = 100, ai_percentage = 0,
                status = ''completed'', message = ''Done''\<rparr>"

text \<open>The rejection of \<open>POST /scrape\<close> with status 400 and \<open>{error: "Invalid URL"}\<close>.\<close>

definition invalidUrl :: thrown where
  "invalidUrl = \<lparr>errorMessage = Some ''Request failed with status code 400'',
                 apiError = Some ''Invalid URL''\<rparr>"

text \<open>
  A film whose title and whose rating both hold double quotes:
  \<open>The "Thing"\<close>, rated \<open>8 "stars"\<close>.
\<close>

definition itemQ :: ScrapedItem where
  "itemQ = \<lparr>title = ''The '' @ [dquote] @ ''Thing'' @ [dquote], price = ''1982'',
            availability = ''8 '' @ [dquote] @ ''stars'' @ [dquote],
            category = ''Horror'', source = ''http://films.example/thing'',
            timestamp = ''2024-05-04'', contentType = Some ''movies''\<rparr>"

text \<open>
  A record whose source is the bare word \<open>__proto__\<close> (not a URL: \<open>new URL\<close> throws),
  and one scraped from the host \<open>constructor\<close>.
\<close>

definition itemP :: ScrapedItem where
  "itemP = itemA\<lparr>source := ''__proto__''\<rparr>"

definition itemK :: ScrapedItem where
  "itemK = itemA\<lparr>source := ''http://constructor/''\<rparr>"

text \<open>
  Two records whose titles and sources differ and whose concatenations of title, source
  and timestamp differ (\<open>Spider-Manreviews...\<close> and \<open>SpiderMan-reviews...\<close>), but
  which give the same \<open>title-source-timestamp\<close>; and a dashboard showing both, the
  first one selected.
\<close>

definition itemD :: ScrapedItem where
  "itemD = \<lparr>title = ''Spider-Man'', price = ''2002'', availability = ''7.4'',
            category = ''Action'', source = ''reviews'',
            timestamp = ''2024-05-05'', contentType = Some ''movies''\<rparr>"

definition itemE :: ScrapedItem where
  "itemE = \<lparr>title = ''Spider'', price = ''2002'', availability = ''6.8'',
            category = ''Drama'', source = ''Man-reviews'',
            timestamp = ''2024-05-05'', contentType = Some ''movies''\<rparr>"

definition dashboardDE :: Dashboard where
  "dashboardDE =
     \<lparr>data = [itemD, itemE], filteredData = [itemD, itemE],
      loading = False, error = [],
      siteSummary = [(''reviews'', JNum 1), (''Man-reviews'', JNum 1)],
      selectedItems = [0], isDeleting = False,
      contentTypeFilter = ''all'', searchQuery = []\<rparr>"

section \<open>Properties of the dashboard\<close>

lemma selectedItems_filterData: "selectedItems (filterData toLowerCase st) = []"
  by (simp add: filterData_def)

lemma filteredData_filterData:
  "filteredData (filterData toLowerCase st)
     = applyFilter toLowerCase (data st) (contentTypeFilter st) (searchQuery st)"
  by (simp add: filterData_def)

text \<open>
  C1. Every recomputation of the derived view leaves the selection empty, whatever it
  was before: \<open>filterData\<close> itself, a reload that replaces the record list, a
  content-type filter that changes, a search text that changes. In each case the view
  is the filter applied to the current list and predicate.
\<close>

theorem selection_reset_on_recompute:
  "selectedItems (filterData toLowerCase st) = []
   \<and> selectedItems (refresh hostnameOf toLowerCase (Resolved (True, items)) st) = []
   \<and> filteredData (refresh hostnameOf toLowerCase (Resolved (True, items)) st)
       = applyFilter toLowerCase items (contentTypeFilter st) (searchQuery st)
   \<and> (type \<noteq> contentTypeFilter st \<longrightarrow>
        selectedItems (setContentTypeFilter toLowerCase type st) = []
        \<and> filteredData (setContentTypeFilter toLowerCase type st)
            = applyFilter toLowerCase (data st) type (searchQuery st))
   \<and> (q \<noteq> searchQuery st \<longrightarrow>
        selectedItems (setSearchQuery toLowerCase q st) = []
        \<and> filteredData (setSearchQuery toLowerCase q st)
            = applyFilter toLowerCase (data st) (contentTypeFilter st) q)"
  by (simp add: refresh_def setContentTypeFilter_def setSearchQuery_def
      selectedItems_filterData filteredData_filterData fetchData_def calculateSiteSummary_def)

theorem selection_reset_on_recompute_witness:
  "selectedItems dashboardABC = [0, 2]
   \<and> selectedItems (refresh hostnames asciiLowerCase (Resolved (True, [itemB])) dashboardABC) = []
   \<and> ''movies'' \<noteq> contentTypeFilter dashboardABC
   \<and> selectedItems (setContentTypeFilter asciiLowerCase ''movies'' dashboardABC) = []
   \<and> filteredData (setContentTypeFilter asciiLowerCase ''movies'' dashboardABC) = [itemB]
   \<and> ''em'' \<noteq> searchQuery dashboardABC
   \<and> selectedItems (setSearchQuery asciiLowerCase ''em'' dashboardABC) = []"
proof -
  have view: "applyFilter asciiLowerCase (data dashboardABC) ''movies'' (searchQuery dashboardABC)
                = [itemB]"
    by code_simp
  show ?thesis
    using selection_reset_on_recompute
      [of asciiLowerCase dashboardABC hostnames "[itemB]" "''movies''" "''em''"]
    by (simp add: view) (simp add: dashboardABC_def)
qed

text \<open>
  C10. With an empty selection \<open>handleDeleteSelected\<close> returns at once: no request is
  sent and the whole state (record list, derived view, site summary, selection, error
  message and the rest) is what it was.
\<close>

theorem delete_nothing_selected:
  "selectedItems st = [] \<Longrightarrow> handleDeleteSelected hostnameOf response st = (st, [])"
  by (simp add: handleDeleteSelected_def)

theorem delete_nothing_selected_witness:
  "selectedItems (dashboardABC\<lparr>selectedItems := []\<rparr>) = []
   \<and> handleDeleteSelected hostnames (Resolved True) (dashboardABC\<lparr>selectedItems := []\<rparr>)
       = (dashboardABC\<lparr>selectedItems := []\<rparr>, [])"
  using delete_nothing_selected
    [of "dashboardABC\<lparr>selectedItems := []\<rparr>" hostnames "Resolved True"]
  by simp

text \<open>
  C3. With a selection that is not empty, an answer with \<open>success: false\<close> or a request
  that throws leaves the record list as it was, all of it (and with it the derived
  view, the site summary and the selection), and sets the error message; the request
  itself was sent, once. The message is not empty, and a dashboard that was showing its
  content shows the error box with it.
\<close>

theorem delete_failure_keeps_data:
  assumes "selectedItems st \<noteq> []"
    and "response = Resolved False \<or> response = Rejected e"
  shows "handleDeleteSelected hostnameOf response st
           = (st\<lparr>isDeleting := False,
                  error := (case response of
                              Resolved b \<Rightarrow> ''Failed to delete items''
                            | Rejected e' \<Rightarrow> ''Error deleting items: '' @ messageOf e')\<rparr>,
              [PostDelete (map (itemAt (filteredData st)) (selectedItems st))])
         \<and> data (fst (handleDeleteSelected hostnameOf response st)) = data st
         \<and> error (fst (handleDeleteSelected hostnameOf response st)) \<noteq> []
         \<and> (loading st
             \<or> render (fst (handleDeleteSelected hostnameOf response st))
                 = ErrorBox (error (fst (handleDeleteSelected hostnameOf response st))))"
  using assms by (auto simp add: handleDeleteSelected_def Let_def render_def)

theorem delete_failure_keeps_data_witness:
  "selectedItems dashboardABC \<noteq> []
   \<and> data (fst (handleDeleteSelected hostnames (Resolved False) dashboardABC))
       = [itemA, itemB, itemC]
   \<and> render (fst (handleDeleteSelected hostnames (Resolved False) dashboardABC))
       = ErrorBox ''Failed to delete items''
   \<and> data (fst (handleDeleteSelected hostnames
               (Rejected \<lparr>errorMessage = Some ''Network Error'', apiError = None\<rparr>) dashboardABC))
       = [itemA, itemB, itemC]
   \<and> render (fst (handleDeleteSelected hostnames
               (Rejected \<lparr>errorMessage = Some ''Network Error'', apiError = None\<rparr>) dashboardABC))
       = ErrorBox ''Error deleting items: Network Error''"
proof -
  let ?e = "\<lparr>errorMessage = Some ''Network Error'', apiError = None\<rparr>"
  have sel: "selectedItems dashboardABC \<noteq> []"
    by (simp add: dashboardABC_def)
  have l: "\<not> loading dashboardABC"
    by (simp add: dashboardABC_def)
  have d: "data dashboardABC = [itemA, itemB, itemC]"
    by (simp add: dashboardABC_def)
  have f: "handleDeleteSelected hostnames (Resolved False) dashboardABC
             = (dashboardABC\<lparr>isDeleting := False, error := ''Failed to delete items''\<rparr>,
                [PostDelete (map (itemAt (filteredData dashboardABC)) (selectedItems dashboardABC))])"
    using delete_failure_keeps_data [OF sel, of "Resolved False" ?e hostnames] by simp
  have r: "handleDeleteSelected hostnames (Rejected ?e) dashboardABC
             = (dashboardABC\<lparr>isDeleting := False,
                               error := ''Error deleting items: Network Error''\<rparr>,
                [PostDelete (map (itemAt (filteredData dashboardABC)) (selectedItems dashboardABC))])"
    using delete_failure_keeps_data [OF sel, of "Rejected ?e" ?e hostnames]
    by (simp add: messageOf_def)
  show ?thesis
    unfolding f r using sel l d by (simp add: render_def)
qed

subsection \<open>The filter\<close>

lemma includesStr_sublist: "includesStr hay needle \<longleftrightarrow> sublist needle hay"
  by (induction hay) (simp_all add: sublist_Cons_right)

subsection \<open>Letters up to case\<close>

lemma letterPairs_codes:
  "letterPairs = map (\<lambda>n. (char_of n, char_of (n + 32))) [65..<91::nat]"
  by code_simp

lemma letterPairs_iff:
  "(c, d) \<in> set letterPairs \<longleftrightarrow>
     65 \<le> (of_char c :: nat) \<and> (of_char c :: nat) \<le> 90 \<and> (of_char d :: nat) = of_char c + 32"
proof
  assume "(c, d) \<in> set letterPairs"
  then obtain n :: nat where n: "65 \<le> n" "n \<le> 90" "c = char_of n" "d = char_of (n + 32)"
    unfolding letterPairs_codes by auto
  then show "65 \<le> (of_char c :: nat) \<and> (of_char c :: nat) \<le> 90 \<and> (of_char d :: nat) = of_char c + 32"
    by simp
next
  assume r: "65 \<le> (of_char c :: nat) \<and> (of_char c :: nat) \<le> 90 \<and> (of_char d :: nat) = of_char c + 32"
  have c: "c = char_of (of_char c :: nat)"
    by simp
  have "d = char_of (of_char d :: nat)"
    by simp
  with r have d: "d = char_of ((of_char c :: nat) + 32)"
    by simp
  have "(of_char c :: nat) \<in> {65..<91}"
    using r by simp
  then have "(of_char c :: nat) \<in> set [65..<91]"
    by (simp only: set_upt)
  then have "(char_of (of_char c :: nat), char_of ((of_char c :: nat) + 32)) \<in> set letterPairs"
    unfolding letterPairs_codes set_map by (rule imageI [where f = "\<lambda>n. (char_of n, char_of (n + 32))"])
  with c d show "(c, d) \<in> set letterPairs"
    by simp
qed

lemma of_char_asciiLower:
  "(of_char (asciiLower c) :: nat)
     = (if 65 \<le> (of_char c :: nat) \<and> (of_char c :: nat) \<le> 90 then of_char c + 32 else of_char c)"
  by (simp add: asciiLower_def)

lemma asciiLower_eq_iff: "asciiLower c = asciiLower d \<longleftrightarrow> sameLetter c d"
proof -
  have inj: "x = y \<longleftrightarrow> (of_char x :: nat) = of_char y" for x y :: char
    by simp
  show ?thesis
    unfolding sameLetter_def letterPairs_iff inj [of "asciiLower c"] inj [of c] of_char_asciiLower
    by auto
qed

lemma map_asciiLower_eq_iff:
  "map asciiLower xs = map asciiLower ys \<longleftrightarrow> list_all2 sameLetter xs ys"
proof (induction xs arbitrary: ys)
  case Nil
  then show ?case by simp
next
  case (Cons x xs)
  then show ?case by (cases ys) (simp_all add: asciiLower_eq_iff)
qed

text \<open>
  Lowering both strings letter by letter and looking for one in the other is looking
  for it up to case.
\<close>

lemma prefix_iff_take: "prefix xs ys \<longleftrightarrow> take (length xs) ys = xs"
proof
  assume "prefix xs ys"
  then show "take (length xs) ys = xs"
    by (auto simp add: prefix_def)
next
  assume "take (length xs) ys = xs"
  then have "xs = take (length xs) ys" by simp
  then show "prefix xs ys"
    by (metis take_is_prefix)
qed

lemma includesStr_lowered:
  "includesStr (map asciiLower t) (map asciiLower text) \<longleftrightarrow> containsIgnoringCase t text"
proof (induction t)
  case Nil
  then show ?case by simp
next
  case (Cons c cs)
  have "prefix (map asciiLower text) (map asciiLower (c # cs))
          \<longleftrightarrow> map asciiLower (take (length text) (c # cs)) = map asciiLower text"
    unfolding prefix_iff_take by (simp only: length_map take_map)
  then have "prefix (map asciiLower text) (map asciiLower (c # cs))
          \<longleftrightarrow> list_all2 sameLetter (take (length text) (c # cs)) text"
    by (simp only: map_asciiLower_eq_iff)
  with Cons.IH show ?case
    by (simp only: list.map includesStr.simps containsIgnoringCase.simps)
qed

text \<open>
  The same spelt out: some stretch of the title is the text, letter by letter, up to
  case.
\<close>

lemma containsIgnoringCase_iff:
  "containsIgnoringCase t text \<longleftrightarrow>
     (\<exists>before mid after. t = before @ mid @ after \<and> list_all2 sameLetter mid text)"
proof -
  have stretch: "sublist needle (map f xs)
      \<longleftrightarrow> (\<exists>before mid after. xs = before @ mid @ after \<and> map f mid = needle)"
    for needle :: string and f xs
    by (auto simp add: sublist_def map_eq_append_conv append_eq_map_conv) blast+
  have "containsIgnoringCase t text \<longleftrightarrow> sublist (map asciiLower text) (map asciiLower t)"
    by (simp only: includesStr_lowered [symmetric] includesStr_sublist)
  also have "\<dots> \<longleftrightarrow> (\<exists>before mid after. t = before @ mid @ after
      \<and> map asciiLower mid = map asciiLower text)"
    by (rule stretch)
  finally show ?thesis
    unfolding map_asciiLower_eq_iff .
qed

subsection \<open>Trimming ASCII text\<close>

lemma char_eq_code: "c = d \<longleftrightarrow> (of_char c :: nat) = of_char d"
  by simp

lemma asciiWhiteSpace_iff:
  "asciiWhiteSpace c \<longleftrightarrow> c \<in> {CHR 0x09, CHR 0x0A, CHR 0x0B, CHR 0x0C, CHR 0x0D, CHR 0x20}"
  by (simp add: asciiWhiteSpace_def char_eq_code [of c])

lemma whiteSpaces_heads:
  "w \<in> set whiteSpaces \<Longrightarrow>
   w \<noteq> [] \<and> ((of_char (hd w) :: nat) < 128 \<longrightarrow> w = [hd w] \<and> asciiWhiteSpace (hd w))"
  "w \<in> set whiteSpaces \<Longrightarrow>
   ((of_char (last w) :: nat) < 128 \<longrightarrow> w = [last w] \<and> asciiWhiteSpace (last w))"
  unfolding whiteSpaces_def asciiWhiteSpace_def by auto

lemma asciiWhiteSpace_member: "asciiWhiteSpace c \<Longrightarrow> [c] \<in> set whiteSpaces"
  unfolding asciiWhiteSpace_iff whiteSpaces_def by auto

text \<open>
  Stripping, for any list of strings of which those that start with an ASCII byte are
  the six white spaces of ASCII: on ASCII text it drops those six from the front.
\<close>

lemma strip_Cons_ascii_gen:
  assumes heads: "\<And>w. w \<in> set ws \<Longrightarrow>
      w \<noteq> [] \<and> ((of_char (hd w) :: nat) < 128 \<longrightarrow> w = [hd w] \<and> asciiWhiteSpace (hd w))"
    and member: "\<And>c. asciiWhiteSpace c \<Longrightarrow> [c] \<in> set ws"
    and ascii: "(of_char c :: nat) < 128"
  shows "strip ws (c # cs) = (if asciiWhiteSpace c then strip ws cs else c # cs)"
proof (cases "find (\<lambda>w. w \<noteq> [] \<and> prefix w (c # cs)) ws")
  case None
  then have no: "\<And>w. w \<in> set ws \<Longrightarrow> \<not> (w \<noteq> [] \<and> prefix w (c # cs))"
    by (simp add: find_None_iff)
  have "\<not> asciiWhiteSpace c"
    using no [OF member [of c]] by auto
  with None show ?thesis
    by (subst strip.simps) simp
next
  case (Some w)
  then have w: "w \<in> set ws" "w \<noteq> []" "prefix w (c # cs)"
    by (auto simp add: find_Some_iff)
  from w(2,3) have "hd w = c"
    by (cases w) simp_all
  with heads [OF w(1)] ascii have "w = [c]" "asciiWhiteSpace c"
    by simp_all
  with Some show ?thesis
    by (subst strip.simps) simp
qed

lemma strip_Nil_gen: "strip ws [] = []"
  by (subst strip.simps) (auto simp add: find_Some_iff split: option.splits)

lemma strip_ascii_gen:
  assumes heads: "\<And>w. w \<in> set ws \<Longrightarrow>
      w \<noteq> [] \<and> ((of_char (hd w) :: nat) < 128 \<longrightarrow> w = [hd w] \<and> asciiWhiteSpace (hd w))"
    and member: "\<And>c. asciiWhiteSpace c \<Longrightarrow> [c] \<in> set ws"
  shows "isAscii s \<Longrightarrow> strip ws s = dropWhile asciiWhiteSpace s"
proof (induction s)
  case Nil
  then show ?case by (simp add: strip_Nil_gen)
next
  case (Cons c cs)
  then have "(of_char c :: nat) < 128" "isAscii cs"
    by (simp_all add: isAscii_def)
  with Cons.IH show ?case
    by (simp add: strip_Cons_ascii_gen [OF heads member])
qed

lemma strip_ascii:
  assumes "isAscii s"
  shows "strip whiteSpaces s = dropWhile asciiWhiteSpace s"
    and "strip (map rev whiteSpaces) s = dropWhile asciiWhiteSpace s"
proof -
  show "strip whiteSpaces s = dropWhile asciiWhiteSpace s"
  proof (rule strip_ascii_gen)
    show "w \<noteq> [] \<and> ((of_char (hd w) :: nat) < 128 \<longrightarrow> w = [hd w] \<and> asciiWhiteSpace (hd w))"
      if "w \<in> set whiteSpaces" for w
      using that by (rule whiteSpaces_heads(1))
    show "[c] \<in> set whiteSpaces" if "asciiWhiteSpace c" for c
      using that by (rule asciiWhiteSpace_member)
    show "isAscii s"
      by (rule assms)
  qed
  show "strip (map rev whiteSpaces) s = dropWhile asciiWhiteSpace s"
  proof (rule strip_ascii_gen)
    show "w \<noteq> [] \<and> ((of_char (hd w) :: nat) < 128 \<longrightarrow> w = [hd w] \<and> asciiWhiteSpace (hd w))"
      if "w \<in> set (map rev whiteSpaces)" for w
    proof -
      from that obtain v where v: "v \<in> set whiteSpaces" "w = rev v"
        by auto
      from whiteSpaces_heads(1) [OF v(1)] have nonempty: "v \<noteq> []"
        by simp
      have "w = [hd w] \<and> asciiWhiteSpace (hd w)" if "(of_char (hd w) :: nat) < 128"
      proof -
        from that v(2) nonempty have "(of_char (last v) :: nat) < 128"
          by (simp add: hd_rev)
        with whiteSpaces_heads(2) [OF v(1)] have "v = [last v]" and white: "asciiWhiteSpace (last v)"
          by simp_all
        then obtain x where "v = [x]"
          by blast
        with white v(2) show ?thesis
          by simp
      qed
      then have "(of_char (hd w) :: nat) < 128 \<longrightarrow> w = [hd w] \<and> asciiWhiteSpace (hd w)"
        by blast
      moreover have "w \<noteq> []"
        using nonempty v(2) by simp
      ultimately show ?thesis
        by blast
    qed
    show "[c] \<in> set (map rev whiteSpaces)" if "asciiWhiteSpace c" for c
      using asciiWhiteSpace_member [OF that] by force
    show "isAscii s"
      by (rule assms)
  qed
qed

lemma isAscii_dropWhile: "isAscii s \<Longrightarrow> isAscii (dropWhile P s)"
  by (auto simp add: isAscii_def list_all_iff dest: set_dropWhileD)

lemma isAscii_rev: "isAscii (rev s) = isAscii s"
  by (simp add: isAscii_def list_all_iff)

lemma trim_ascii:
  "isAscii s \<Longrightarrow> trim s = rev (dropWhile asciiWhiteSpace (rev (dropWhile asciiWhiteSpace s)))"
  by (simp add: trim_def strip_ascii isAscii_dropWhile isAscii_rev)

lemma isAscii_trim: "isAscii s \<Longrightarrow> isAscii (trim s)"
  by (simp add: trim_ascii isAscii_dropWhile isAscii_rev)




subsection \<open>The search\<close>







text \<open>
  C5. The filtered list is a subsequence of the list it was computed from, in the same
  order, and filtering the result again with the same predicate changes nothing.
\<close>

theorem applyFilter_subseq_idempotent:
  "subseq (applyFilter toLowerCase items ctf q) items
   \<and> applyFilter toLowerCase (applyFilter toLowerCase items ctf q) ctf q
       = applyFilter toLowerCase items ctf q"
proof
  show "subseq (applyFilter toLowerCase items ctf q) items"
    by (auto simp add: applyFilter_def Let_def intro: subseq_order.trans)
  show "applyFilter toLowerCase (applyFilter toLowerCase items ctf q) ctf q
          = applyFilter toLowerCase items ctf q"
    by (auto simp add: applyFilter_def Let_def intro: filter_cong)
qed

theorem applyFilter_subseq_idempotent_witness:
  "applyFilter asciiLowerCase [itemA, itemB, itemC] ''books'' ''u'' = [itemA]
   \<and> subseq [itemA] [itemA, itemB, itemC]
   \<and> applyFilter asciiLowerCase [itemA] ''books'' ''u'' = [itemA]"
proof -
  have v: "applyFilter asciiLowerCase [itemA, itemB, itemC] ''books'' ''u'' = [itemA]"
    by code_simp
  show ?thesis
    using applyFilter_subseq_idempotent
      [of asciiLowerCase "[itemA, itemB, itemC]" "''books''" "''u''"]
    by (simp add: v)
qed

section \<open>Properties of the scrape form\<close>

lemma onmessage_SyntaxError: "onmessage ct es SyntaxError st = st"
  by (simp add: onmessage_def)

lemma dispatch_SyntaxError: "dispatch ct es SyntaxError st = st"
  by (simp add: dispatch_def onmessage_SyntaxError)

lemma deliver_append:
  "deliver ct es (xs @ ys) st = deliver ct es ys (deliver ct es xs st)"
  by (induction xs arbitrary: st) simp_all

lemma deliver_without_SyntaxError:
  "deliver ct es events st = deliver ct es (filter (\<lambda>e. e \<noteq> SyntaxError) events) st"
  by (induction events arbitrary: st) (simp_all add: dispatch_SyntaxError)

text \<open>
  C8. An event whose payload \<open>JSON.parse\<close> rejects is dropped on its own: the handler
  returns the state it was given (the progress, the message, the channel held in the
  state and the set of closed channels with it, so the channel is as open as before),
  and a sequence of events has the effect of the same sequence without its undecodable
  events; what comes after such an event is handled as if the event had not been sent.
\<close>

theorem malformed_event_discarded:
  "onmessage ct es SyntaxError st = st
   \<and> dispatch ct es SyntaxError st = st
   \<and> isOpen (dispatch ct es SyntaxError st) es = isOpen st es
   \<and> deliver ct es (before @ SyntaxError # after) st = deliver ct es (before @ after) st
   \<and> deliver ct es events st
       = deliver ct es (filter (\<lambda>e. e \<noteq> SyntaxError) events) st"
proof -
  have "deliver ct es (before @ SyntaxError # after) st = deliver ct es (before @ after) st"
    by (simp add: deliver_append dispatch_SyntaxError)
  then show ?thesis
    using deliver_without_SyntaxError [of ct es events st]
    by (simp add: onmessage_SyntaxError dispatch_SyntaxError)
qed

theorem malformed_event_discarded_witness:
  "deliver ''books'' 0 [JsonObject running, SyntaxError] (handleSubmit (Resolved ()) formReady)
     = deliver ''books'' 0 [JsonObject running] (handleSubmit (Resolved ()) formReady)
   \<and> progress (deliver ''books'' 0 [JsonObject running, SyntaxError]
                 (handleSubmit (Resolved ()) formReady)) = Some running
   \<and> isOpen (deliver ''books'' 0 [JsonObject running, SyntaxError]
                 (handleSubmit (Resolved ()) formReady)) 0
   \<and> formMessage (deliver ''books'' 0 [JsonObject running, SyntaxError, JsonObject completed]
                    (handleSubmit (Resolved ()) formReady))
       = ''Successfully scraped 10 books!''
   \<and> closedChannels (deliver ''books'' 0 [JsonObject running, SyntaxError, JsonObject completed]
                    (handleSubmit (Resolved ()) formReady)) = [0]"
proof -
  let ?st = "handleSubmit (Resolved ()) formReady"
  have a: "deliver ''books'' 0 [JsonObject running, SyntaxError] ?st
             = deliver ''books'' 0 [JsonObject running] ?st"
    and b: "deliver ''books'' 0 [JsonObject running, SyntaxError, JsonObject completed] ?st
             = deliver ''books'' 0 [JsonObject running, JsonObject completed] ?st"
    using malformed_event_discarded [of "''books''" 0 ?st "[JsonObject running]" "[]"]
      malformed_event_discarded [of "''books''" 0 ?st "[JsonObject running]" "[JsonObject completed]"]
    by simp_all
  have c: "progress (deliver ''books'' 0 [JsonObject running] ?st) = Some running"
    and d: "isOpen (deliver ''books'' 0 [JsonObject running] ?st) 0"
    and e: "formMessage (deliver ''books'' 0 [JsonObject running, JsonObject completed] ?st)
             = ''Successfully scraped 10 books!''"
    and f: "closedChannels (deliver ''books'' 0 [JsonObject running, JsonObject completed] ?st) = [0]"
    by code_simp+
  show ?thesis
    unfolding a b using c d e f by simp
qed

text \<open>
  What \<open>handleSubmit\<close> does when \<open>POST /scrape\<close> is rejected and the form was
  submitted without a channel in its state: the message is the \<open>error\<close> of the
  payload, or the generic one, and the channel just opened stays open.
\<close>

lemma handleSubmit_rejected_message:
  "trim (url st) \<noteq> [] \<Longrightarrow>
   formMessage (handleSubmit (Rejected e) st)
     = orElse (apiError e) ''An error occurred while scraping''"
  by (simp add: handleSubmit_def Let_def setEventSource_def closeChannel_def
      split: option.splits)

lemma handleSubmit_rejected_channel:
  "trim (url st) \<noteq> [] \<Longrightarrow> eventSource st = None \<Longrightarrow> created st \<notin> set (closedChannels st) \<Longrightarrow>
   isOpen (handleSubmit (Rejected e) st) (created st)
   \<and> eventSource (handleSubmit (Rejected e) st) = Some (created st)"
  by (simp add: handleSubmit_def Let_def setEventSource_def isOpen_def)

text \<open>
  C7, at the first submission of a form: \<open>POST /scrape\<close> is rejected with
  \<open>{error: "Invalid URL"}\<close>. The message shown is \<open>Invalid URL\<close>, and the channel that
  this submission opened (number 0) has not been closed: the \<open>catch\<close> block tests the
  \<open>eventSource\<close> of the render that submitted, which is \<open>null\<close>.
\<close>

theorem rejected_submit_leaves_channel_open:
  "formMessage (handleSubmit (Rejected invalidUrl) formReady) = ''Invalid URL''
   \<and> formMessageType (handleSubmit (Rejected invalidUrl) formReady) = Error
   \<and> created (handleSubmit (Rejected invalidUrl) formReady) = 1
   \<and> eventSource (handleSubmit (Rejected invalidUrl) formReady) = Some 0
   \<and> closedChannels (handleSubmit (Rejected invalidUrl) formReady) = []
   \<and> isOpen (handleSubmit (Rejected invalidUrl) formReady) 0"
  by code_simp

section \<open>Properties of the export\<close>

lemma doubleQuotes_without_quotes: "dquote \<notin> set s \<Longrightarrow> doubleQuotes s = s"
  by (induction s) (auto simp add: doubleQuotes_def)

text \<open>
  The rows agree with the specification as long as no field other than the title holds
  a double quote: only the title goes through \<open>replace\<close>.
\<close>

lemma csvRow_without_quotes:
  assumes "dquote \<notin> set (price item)" "dquote \<notin> set (availability item)"
    "dquote \<notin> set (category item)" "dquote \<notin> set (source item)"
    "dquote \<notin> set (toLocaleString (timestamp item))"
    "dquote \<notin> set (orElse (contentType item) ''books'')"
  shows "csvRow toLocaleString item = specCsvRow toLocaleString item"
  using assms by (simp add: csvRow_def specCsvRow_def csvQuoted_def doubleQuotes_without_quotes)

text \<open>
  C6, on a view of one record with a double quote in its rating, the timestamp printed
  as it is stored: the header row is the fixed one and the title has its quotes
  doubled, but the rating is written between quotes as it is, \<open>"8 "stars""\<close>, where
  the specification has \<open>"8 ""stars"""\<close>; the file is not the file of the
  specification.
\<close>

theorem exportToCSV_quotes_only_title:
  "exportToCSV id (dashboardABC\<lparr>filteredData := [itemQ]\<rparr>)
     = ''Title,Price/Release Date,Availability/Rating,Category,Source,Timestamp,Content Type''
       @ [CHR 0x0A]
       @ [dquote] @ ''The '' @ [dquote, dquote] @ ''Thing'' @ [dquote, dquote] @ [dquote]
       @ '','' @ [dquote] @ ''1982'' @ [dquote]
       @ '','' @ [dquote] @ ''8 '' @ [dquote] @ ''stars'' @ [dquote] @ [dquote]
       @ '','' @ [dquote] @ ''Horror'' @ [dquote]
       @ '','' @ [dquote] @ ''http://films.example/thing'' @ [dquote]
       @ '','' @ [dquote] @ ''2024-05-04'' @ [dquote]
       @ '','' @ [dquote] @ ''movies'' @ [dquote]
   \<and> csvQuoted (availability itemQ)
       = [dquote] @ ''8 '' @ [dquote, dquote] @ ''stars'' @ [dquote, dquote] @ [dquote]
   \<and> exportToCSV id (dashboardABC\<lparr>filteredData := [itemQ]\<rparr>)
       \<noteq> specExportCsv id [itemQ]"
  by code_simp

section \<open>Properties of the site summary\<close>

lemma totalCount_Cons: "totalCount ((key, v) # summary) = countOf v + totalCount summary"
  by (simp add: totalCount_def)

lemma soundSummary_Cons:
  "soundSummary ((key, v) # summary)
     \<longleftrightarrow> key \<notin> set objectPrototypeKeys \<and> isCount v \<and> soundSummary summary"
  by (simp add: soundSummary_def)

lemma increment_sound:
  "soundSummary summary \<Longrightarrow> key \<notin> set objectPrototypeKeys \<Longrightarrow>
   soundSummary (increment summary key)
   \<and> totalCount (increment summary key) = Suc (totalCount summary)"
proof (induction summary)
  case Nil
  then have "key \<noteq> ''__proto__''"
    by (auto simp add: objectPrototypeKeys_def)
  with Nil show ?case
    by (simp add: increment_def getProp_def setProp_def soundSummary_def totalCount_def)
next
  case (Cons p summary)
  obtain k v where p: "p = (k, v)"
    by (cases p)
  from Cons.prems have proto: "key \<noteq> ''__proto__''"
    by (auto simp add: objectPrototypeKeys_def)
  from Cons.prems p obtain n where v: "v = JNum n"
    by (cases v) (simp_all add: soundSummary_Cons)
  show ?case
  proof (cases "k = key")
    case True
    with Cons.prems p v proto show ?thesis
      by (simp add: increment_def getProp_def setProp_def soundSummary_Cons totalCount_Cons)
  next
    case False
    from Cons.prems p have sound: "soundSummary summary"
      by (simp add: soundSummary_Cons)
    have same: "getProp ((k, v) # summary) key = getProp summary key"
      using False by (simp add: getProp_def)
    have step: "increment ((k, v) # summary) key = (k, v) # increment summary key"
      using False proto by (simp add: increment_def setProp_def same)
    from Cons.IH [OF sound Cons.prems(2)] Cons.prems(1) show ?thesis
      unfolding p step by (simp add: soundSummary_Cons totalCount_Cons)
  qed
qed

text \<open>
  As long as no record is counted under a member of \<open>Object.prototype\<close>, every record
  adds one to one count, and the counts add up to the number of records.
\<close>

lemma summarise_total:
  "soundSummary summary \<Longrightarrow>
   \<forall>item \<in> set items. summaryKey hostnameOf item \<notin> set objectPrototypeKeys \<Longrightarrow>
   soundSummary (summarise hostnameOf summary items)
   \<and> totalCount (summarise hostnameOf summary items) = totalCount summary + length items"
proof (induction items arbitrary: summary)
  case Nil
  then show ?case by simp
next
  case (Cons item items)
  from Cons.prems have key: "summaryKey hostnameOf item \<notin> set objectPrototypeKeys"
    and rest: "\<forall>item \<in> set items. summaryKey hostnameOf item \<notin> set objectPrototypeKeys"
    by simp_all
  from increment_sound [OF Cons.prems(1) key]
  have sound: "soundSummary (increment summary (summaryKey hostnameOf item))"
    and total: "totalCount (increment summary (summaryKey hostnameOf item))
                  = Suc (totalCount summary)"
    by simp_all
  from Cons.IH [OF sound rest] total show ?case
    by simp
qed

lemma calculateSiteSummary_total:
  "\<forall>item \<in> set items. summaryKey hostnameOf item \<notin> set objectPrototypeKeys \<Longrightarrow>
   totalCount (siteSummary (calculateSiteSummary hostnameOf items st)) = length items"
  using summarise_total [of "[]" items hostnameOf]
  by (simp add: calculateSiteSummary_def soundSummary_def totalCount_def)

text \<open>
  C9, on two lists of one record. A record whose source is \<open>__proto__\<close> is counted
  under no key at all: the summary stays empty and its counts add up to 0, not to 1.
  A record from the host \<open>constructor\<close> gets a key whose value is a string, not the
  count 1.
\<close>

theorem summary_loses_prototype_keys:
  "hostnames (source itemP) = None
   \<and> summaryKey hostnames itemP = ''__proto__''
   \<and> siteSummary (calculateSiteSummary hostnames [itemP] dashboardABC) = []
   \<and> totalCount (siteSummary (calculateSiteSummary hostnames [itemP] dashboardABC)) = 0
   \<and> length [itemP] = 1
   \<and> summaryKey hostnames itemK = ''constructor''
   \<and> siteSummary (calculateSiteSummary hostnames [itemK] dashboardABC)
       = [(''constructor'', JStr ''function Object() { [native code] }1'')]
   \<and> totalCount (siteSummary (calculateSiteSummary hostnames [itemK] dashboardABC)) = 0"
  by code_simp

section \<open>Properties of the deletion\<close>

lemma map_itemAt:
  "\<forall>i \<in> set indices. i < length xs \<Longrightarrow>
   map (itemAt xs) indices = map Some (map ((!) xs) indices)"
  by (simp add: itemAt_def)

lemma those_map_Some: "those (map Some xs) = Some xs"
  by (induction xs) simp_all

lemma handleDeleteSelected_success:
  assumes "selectedItems st \<noteq> []"
    and "\<forall>i \<in> set (selectedItems st). i < length (filteredData st)"
  shows "handleDeleteSelected hostnameOf (Resolved True) st
           = (let selected = map ((!) (filteredData st)) (selectedItems st);
                  newData = filter (\<lambda>item. identityKey item \<notin> set (map identityKey selected))
                              (data st)
              in (st\<lparr>data := newData, siteSummary := summarise hostnameOf [] newData,
                     selectedItems := [], isDeleting := False\<rparr>,
                  [PostDelete (map Some selected)]))"
proof -
  let ?selected = "map ((!) (filteredData st)) (selectedItems st)"
  have items: "map (itemAt (filteredData st)) (selectedItems st) = map Some ?selected"
    using assms(2) by (rule map_itemAt)
  show ?thesis
    unfolding handleDeleteSelected_def Let_def items those_map_Some using assms(1)
    by (simp add: calculateSiteSummary_def)
qed

text \<open>
  With pairwise distinct keys, a record of the list has the key of a selected record
  only if it is that record.
\<close>

lemma key_of_selected:
  assumes "distinct (map identityKey items)" and "set selected \<subseteq> set items"
    and "item \<in> set items"
  shows "identityKey item \<in> set (map identityKey selected) \<longleftrightarrow> item \<in> set selected"
proof -
  from assms(1) have "inj_on identityKey (set items)"
    by (simp add: distinct_map)
  with assms(2,3) show ?thesis
    by (auto dest: inj_onD)
qed

text \<open>
  C2, with the identity key of the code, \<open>title-source-timestamp\<close>. For a selection
  that is not empty (without one no request is sent) and lies within the view, a
  successful answer removes from the record list the records whose key is the key of a
  selected record, and no other, the rest staying in order; the site summary is
  computed afresh from the new list, the selection is emptied, and the one request
  carried the selected records. When the keys of the list are pairwise distinct and the
  view shows records of the list, the records removed are the selected records
  themselves.
\<close>

theorem delete_success_removes_selected:
  assumes "selectedItems st \<noteq> []"
    and "\<forall>i \<in> set (selectedItems st). i < length (filteredData st)"
    and "st' = fst (handleDeleteSelected hostnameOf (Resolved True) st)"
    and "selected = map ((!) (filteredData st)) (selectedItems st)"
  shows "data st' = filter (\<lambda>item. identityKey item \<notin> set (map identityKey selected)) (data st)
         \<and> subseq (data st') (data st)
         \<and> siteSummary st' = summarise hostnameOf [] (data st')
         \<and> selectedItems st' = []
         \<and> snd (handleDeleteSelected hostnameOf (Resolved True) st) = [PostDelete (map Some selected)]
         \<and> (distinct (map identityKey (data st)) \<and> set (filteredData st) \<subseteq> set (data st)
              \<longrightarrow> data st' = filter (\<lambda>item. item \<notin> set selected) (data st))"
proof -
  have new: "data st' = filter (\<lambda>item. identityKey item \<notin> set (map identityKey selected)) (data st)"
    and rest: "siteSummary st' = summarise hostnameOf [] (data st')" "selectedItems st' = []"
      "snd (handleDeleteSelected hostnameOf (Resolved True) st) = [PostDelete (map Some selected)]"
    using assms(3,4)
    by (simp_all add: handleDeleteSelected_success [OF assms(1,2)] Let_def image_image)
  have "data st' = filter (\<lambda>item. item \<notin> set selected) (data st)"
    if d: "distinct (map identityKey (data st))" and v: "set (filteredData st) \<subseteq> set (data st)"
  proof -
    from assms(2,4) v have "set selected \<subseteq> set (data st)"
      by auto
    with d show ?thesis
      unfolding new by (intro filter_cong refl) (simp only: key_of_selected)
  qed
  with new rest show ?thesis
    by simp
qed

theorem delete_success_removes_selected_witness:
  "selectedItems dashboardABC = [0, 2]
   \<and> distinct (map identityKey (data dashboardABC))
   \<and> data (fst (handleDeleteSelected hostnames (Resolved True) dashboardABC)) = [itemB]
   \<and> siteSummary (fst (handleDeleteSelected hostnames (Resolved True) dashboardABC))
       = [(''films.example'', JNum 1)]
   \<and> selectedItems (fst (handleDeleteSelected hostnames (Resolved True) dashboardABC)) = []
   \<and> snd (handleDeleteSelected hostnames (Resolved True) dashboardABC)
       = [PostDelete [Some itemA, Some itemC]]"
proof -
  have sel: "selectedItems dashboardABC \<noteq> []"
    and range: "\<forall>i \<in> set (selectedItems dashboardABC). i < length (filteredData dashboardABC)"
    by (simp_all add: dashboardABC_def)
  have selected: "map ((!) (filteredData dashboardABC)) (selectedItems dashboardABC) = [itemA, itemC]"
    and d: "data dashboardABC = [itemA, itemB, itemC]"
    and s: "selectedItems dashboardABC = [0, 2]"
    by (simp_all add: dashboardABC_def)
  have keys: "distinct (map identityKey [itemA, itemB, itemC])"
    and remaining: "filter (\<lambda>item. identityKey item \<notin> set (map identityKey [itemA, itemC]))
                      [itemA, itemB, itemC] = [itemB]"
    and summary: "summarise hostnames [] [itemB] = [(''films.example'', JNum 1)]"
    by code_simp+
  let ?r = "fst (handleDeleteSelected hostnames (Resolved True) dashboardABC)"
  from delete_success_removes_selected
    [OF sel range refl refl, of hostnames, unfolded selected d remaining]
  have new: "data ?r = [itemB]"
    and summ: "siteSummary ?r = summarise hostnames [] (data ?r)"
    and none: "selectedItems ?r = []"
    and req: "snd (handleDeleteSelected hostnames (Resolved True) dashboardABC)
                = [PostDelete (map Some [itemA, itemC])]"
    by blast+
  note summ' = summ [unfolded new summary]
  show ?thesis
    using keys by (simp add: s d new summ' none req)
qed

text \<open>
  C2 as the specification words the key, the plain concatenation of title, source and
  timestamp: the two records of \<open>dashboardDE\<close> have distinct concatenations, the first
  is selected, and the successful deletion removes both, where only the first has the
  concatenation of a selected record.
\<close>

theorem delete_by_concatenation_counterexample:
  "data dashboardDE = [itemD, itemE]
   \<and> distinct (map specIdentityKey [itemD, itemE])
   \<and> map ((!) (filteredData dashboardDE)) (selectedItems dashboardDE) = [itemD]
   \<and> specSurvivors [itemD] [itemD, itemE] = [itemE]
   \<and> data (fst (handleDeleteSelected hostnames (Resolved True) dashboardDE)) = []
   \<and> data (fst (handleDeleteSelected hostnames (Resolved True) dashboardDE))
       \<noteq> specSurvivors [itemD] [itemD, itemE]"
  by code_simp

section \<open>The invariant of the dashboard\<close>

lemma viewInvariant_filterData: "viewInvariant toLowerCase (filterData toLowerCase st)"
  by (simp add: viewInvariant_def filterData_def)

lemma viewInvariant_unselected:
  "viewInvariant toLowerCase st \<Longrightarrow>
   viewInvariant toLowerCase (st\<lparr>isDeleting := b, error := e, loading := l\<rparr>)"
  by (auto simp add: viewInvariant_def)

text \<open>
  Every event keeps the invariant: a reload (whatever the answer), a filter button, the
  search box, a check box of a row of the view, the check box of the header, and the
  deletion (whatever the answer).
\<close>

lemma viewInvariant_refresh:
  "viewInvariant toLowerCase st \<Longrightarrow>
   viewInvariant toLowerCase (refresh hostnameOf toLowerCase response st)"
proof (cases response)
  case (Resolved r)
  obtain ok items where r: "r = (ok, items)"
    by (cases r)
  assume inv: "viewInvariant toLowerCase st"
  show ?thesis
  proof (cases ok)
    case True
    with Resolved r show ?thesis
      by (simp add: refresh_def viewInvariant_filterData)
  next
    case False
    with Resolved r inv show ?thesis
      by (auto simp add: refresh_def fetchData_def viewInvariant_def)
  qed
next
  case (Rejected e)
  assume "viewInvariant toLowerCase st"
  with Rejected show ?thesis
    by (auto simp add: refresh_def fetchData_def viewInvariant_def)
qed

lemma viewInvariant_setContentTypeFilter:
  "viewInvariant toLowerCase st \<Longrightarrow>
   viewInvariant toLowerCase (setContentTypeFilter toLowerCase type st)"
  by (simp add: setContentTypeFilter_def viewInvariant_filterData)

lemma viewInvariant_setSearchQuery:
  "viewInvariant toLowerCase st \<Longrightarrow> viewInvariant toLowerCase (setSearchQuery toLowerCase q st)"
  by (simp add: setSearchQuery_def viewInvariant_filterData)

lemma viewInvariant_handleSelectItem:
  "viewInvariant toLowerCase st \<Longrightarrow> index < length (filteredData st) \<Longrightarrow>
   viewInvariant toLowerCase (handleSelectItem index st)"
  by (auto simp add: viewInvariant_def handleSelectItem_def list_all_iff distinct_removeAll)

lemma viewInvariant_handleSelectAll:
  "viewInvariant toLowerCase st \<Longrightarrow> viewInvariant toLowerCase (handleSelectAll st)"
  by (simp add: viewInvariant_def handleSelectAll_def list_all_iff)

lemma viewInvariant_deleteSelected:
  assumes "viewInvariant toLowerCase st"
  shows "viewInvariant toLowerCase (deleteSelected hostnameOf toLowerCase response st)"
proof (cases "selectedItems st \<noteq> [] \<and> response = Resolved True
    \<and> those (map (itemAt (filteredData st)) (selectedItems st)) \<noteq> None")
  case True
  then show ?thesis
    by (simp add: deleteSelected_def Let_def viewInvariant_filterData)
next
  case False
  have "viewInvariant toLowerCase (fst (handleDeleteSelected hostnameOf response st))"
  proof (cases "selectedItems st = []")
    case True
    with assms show ?thesis
      by (simp add: handleDeleteSelected_def)
  next
    case False
    note nonempty = this
    show ?thesis
    proof (cases response)
      case (Resolved ok)
      with nonempty \<open>\<not> (selectedItems st \<noteq> [] \<and> response = Resolved True
          \<and> those (map (itemAt (filteredData st)) (selectedItems st)) \<noteq> None)\<close>
      have "\<not> ok \<or> those (map (itemAt (filteredData st)) (selectedItems st)) = None"
        by auto
      with assms nonempty Resolved show ?thesis
        by (auto simp add: handleDeleteSelected_def Let_def viewInvariant_def)
    next
      case (Rejected e)
      with assms nonempty show ?thesis
        by (auto simp add: handleDeleteSelected_def Let_def viewInvariant_def)
    qed
  qed
  then show ?thesis
    by (simp add: deleteSelected_def Let_def viewInvariant_filterData)
qed

text \<open>
  Under the invariant every selected position is a row of the view, and the view shows
  records of the list: what the deletion needs.
\<close>

lemma viewInvariant_selection:
  "viewInvariant toLowerCase st \<Longrightarrow>
   (\<forall>i \<in> set (selectedItems st). i < length (filteredData st))
   \<and> set (filteredData st) \<subseteq> set (data st)"
  by (auto simp add: viewInvariant_def list_all_iff applyFilter_def Let_def split: if_splits)

end
